theory Spec2Isabelle
  imports Main
begin

section \<open>Python values, errors and arrays\<close>

text \<open>
  The development embeds \<^verbatim>\<open>Predictor._forward_pass\<close> and \<^verbatim>\<open>Predictor._predict\<close> of
  \<^verbatim>\<open>src/ISR/predict/predictor.py\<close>. Every exception the two functions can meet is a
  value of \<open>error\<close>. The first five are the Python exceptions the operations written in
  the source raise (subscripting, \<^verbatim>\<open>range\<close>, \<^verbatim>\<open>np.append\<close>, reading an unassigned
  local, reading a name that is bound nowhere). \<open>ModelRaised\<close> stands for whatever the
  external model raises. The last four are the error kinds the specification names; the
  source file raises none of them itself.
\<close>

datatype error =
    IndexError
  | TypeError
  | ValueError
  | UnboundLocalError
  | NameError
  | ModelRaised string
  | InvalidChannelCount
  | InvalidPatchSize
  | ShapeMismatchError
  | ModelInferenceError nat nat

text \<open>
  An array is its shape and its elements in row-major order. An array with a leading
  batch axis (the patch collection, a batch handed to the model, the model's output) is
  modelled as the list of its entries along axis 0, so that \<^verbatim>\<open>len\<close>, slicing,
  \<^verbatim>\<open>[0]\<close> and \<^verbatim>\<open>np.append(..., axis=0)\<close> are the list operations.
\<close>

datatype 'a ndarray = NDArray (shape: "nat list") (elems: "'a list")

text \<open>
  The attribute \<^verbatim>\<open>size\<close> of a numpy array is the number of its elements, an integer;
  \<^verbatim>\<open>imageio.imread\<close> returns a numpy array. Subscripting an integer raises
  \<^verbatim>\<open>TypeError\<close>, subscripting a tuple out of range raises \<^verbatim>\<open>IndexError\<close>.
\<close>

datatype pyval = PInt int | PTuple "int list"

fun subscript :: "pyval \<Rightarrow> nat \<Rightarrow> error + int" where
  "subscript (PInt n) i = Inl TypeError"
| "subscript (PTuple xs) i = (if i < length xs then Inr (xs ! i) else Inl IndexError)"

definition ndarray_size :: "'a ndarray \<Rightarrow> pyval" where
  "ndarray_size a = PInt (int (prod_list (shape a)))"

text \<open>\<^verbatim>\<open>range(0, n, step)\<close>: a zero step raises, a negative step gives no index.\<close>

definition py_range0 :: "nat \<Rightarrow> int \<Rightarrow> error + nat list" where
  "py_range0 n step =
     (if step = 0 then Inl ValueError
      else if step < 0 then Inr []
      else Inr (map (\<lambda>k. k * nat step) [0..<(n + nat step - 1) div nat step]))"

text \<open>\<^verbatim>\<open>xs[i : i + k]\<close> for \<open>0 \<le> i\<close>; a non-positive \<open>k\<close> gives the empty slice.\<close>

definition py_slice :: "'x list \<Rightarrow> nat \<Rightarrow> int \<Rightarrow> 'x list" where
  "py_slice xs i k = take (nat k) (drop i xs)"

text \<open>\<^verbatim>\<open>xs[0]\<close> on a batch.\<close>

definition index0 :: "'x list \<Rightarrow> error + 'x" where
  "index0 xs = (case xs of [] \<Rightarrow> Inl IndexError | x # _ \<Rightarrow> Inr x)"

text \<open>
  \<^verbatim>\<open>np.append(collect, batch, axis=0)\<close> joins along axis 0 and raises
  \<^verbatim>\<open>ValueError\<close> when the entries of the two arrays differ in shape.
\<close>

definition np_append :: "'x ndarray list \<Rightarrow> 'x ndarray list \<Rightarrow> error + 'x ndarray list" where
  "np_append collect batch =
     (if list_ex (\<lambda>x. list_ex (\<lambda>y. shape x \<noteq> shape y) batch) collect
      then Inl ValueError
      else Inr (collect @ batch))"

text \<open>
  \<^verbatim>\<open>tuple(np.multiply(shp[0:2], scale)) + (3,)\<close>: the first two axes scaled, then the
  literal channel count 3.
\<close>

definition scaled_shape :: "nat list \<Rightarrow> nat \<Rightarrow> nat list" where
  "scaled_shape shp s = map (\<lambda>d. d * s) (take 2 shp) @ [3]"

section \<open>Runs: a result or an error, with the calls made on the way\<close>

text \<open>
  The calls to the collaborators (the array codec, the patch splitter, the model, the
  stitcher) are the observable effects of a run. A run is the list of the calls made, in
  order, and the value returned or the exception raised. \<open>Ev_predict i n\<close> is a model
  call on the \<open>n\<close> patches starting at index \<open>i\<close>; \<open>Ev_stitch n\<close> is a stitch of \<open>n\<close>
  predictions. Writing to the log is not an event; evaluating the expression that
  reaches the logger is part of the run, see \<open>self_logger_info\<close>.
\<close>

datatype event =
    Ev_process_array bool
  | Ev_split int int
  | Ev_predict nat nat
  | Ev_stitch nat
  | Ev_process_output

type_synonym 'x run = "event list \<times> (error + 'x)"

definition ret :: "'x \<Rightarrow> 'x run" where
  "ret x = ([], Inr x)"

definition raise :: "error \<Rightarrow> 'x run" where
  "raise e = ([], Inl e)"

definition lift :: "error + 'x \<Rightarrow> 'x run" where
  "lift r = ([], r)"

definition call :: "event \<Rightarrow> error + 'x \<Rightarrow> 'x run" where
  "call ev r = ([ev], r)"

definition then_run :: "'x run \<Rightarrow> ('x \<Rightarrow> 'y run) \<Rightarrow> 'y run" where
  "then_run m f =
     (case m of
        (t, Inl e) \<Rightarrow> (t, Inl e)
      | (t, Inr x) \<Rightarrow> (case f x of (t', r) \<Rightarrow> (t @ t', r)))"

section \<open>The collaborators\<close>

text \<open>
  The model is consumed through \<^verbatim>\<open>model.predict\<close> and \<^verbatim>\<open>model.scale\<close> only.
\<close>

record 'b model =
  predict :: "'b ndarray list \<Rightarrow> error + 'b ndarray list"
  scale :: nat

text \<open>
  The four functions imported from \<^verbatim>\<open>ISR.utils.image_processing\<close> are not part of
  the source file; \<^verbatim>\<open>_predict\<close> is embedded over any four functions of their types.
  \<open>process_array\<close> is the codec's forward map; the call
  \<^verbatim>\<open>process_array(x)\<close> (with \<^verbatim>\<open>expand\<close> left at its default) additionally wraps the
  image as a batch of one, see \<open>process_array_expand\<close>.
\<close>

record ('a, 'b) helpers =
  process_array :: "'a ndarray \<Rightarrow> error + 'b ndarray"
  process_output :: "'b ndarray \<Rightarrow> error + 'a ndarray"
  split_image_into_overlapping_patches ::
    "'b ndarray \<Rightarrow> int \<Rightarrow> int \<Rightarrow> error + ('b ndarray list \<times> nat list)"
  stich_together :: "'b ndarray list \<Rightarrow> nat list \<Rightarrow> nat list \<Rightarrow> int \<Rightarrow> error + 'b ndarray"

text \<open>
  Modelled from the spec: the \<^verbatim>\<open>expand\<close> flag of \<^verbatim>\<open>process_array\<close> is missing from
  the source; the single-pass path hands the model "the whole (batch-of-one) image".
\<close>

definition process_array_expand :: "('a, 'b) helpers \<Rightarrow> 'a ndarray \<Rightarrow> error + 'b ndarray list" where
  "process_array_expand hs a =
     (case process_array hs a of Inl e \<Rightarrow> Inl e | Inr x \<Rightarrow> Inr [x])"

section \<open>\<^verbatim>\<open>Predictor._predict\<close>\<close>

text \<open>
  \<^verbatim>\<open>_predict\<close> is declared with the parameters \<^verbatim>\<open>model\<close>, \<^verbatim>\<open>input_image_array\<close>,
  \<^verbatim>\<open>by_patch_of_size\<close>, \<^verbatim>\<open>batch_size\<close> and \<^verbatim>\<open>padding_size\<close>: it has no parameter
  \<^verbatim>\<open>self\<close>, and the module binds no global of that name. The statements
  \<^verbatim>\<open>self.logger.info(...)\<close> of lines 160, 166 and 168 evaluate the name \<^verbatim>\<open>self\<close>
  first, which raises \<^verbatim>\<open>NameError\<close> before the logger or the message is reached.
\<close>

definition self_logger_info :: "unit run" where
  "self_logger_info = raise NameError"

text \<open>
  The stitch of lines 175--183 and again of lines 187--195: scale, the two scaled
  shapes, and the call of \<^verbatim>\<open>stich_together\<close> on \<^verbatim>\<open>collect\<close>.
\<close>

definition stitch_collect ::
  "('a, 'b) helpers \<Rightarrow> 'b model \<Rightarrow> 'a ndarray \<Rightarrow> int \<Rightarrow> nat list \<Rightarrow> 'b ndarray list
     \<Rightarrow> 'b ndarray run" where
  "stitch_collect hs m input_image_array padding_size p_shape collect =
     call (Ev_stitch (length collect))
       (stich_together hs collect
          (scaled_shape p_shape (scale m))
          (scaled_shape (shape input_image_array) (scale m))
          (padding_size * int (scale m)))"

text \<open>
  Lines 169--185, the loop's body after its first statement. \<open>collect\<close> is \<open>None\<close> while
  the local variable is unassigned.
\<close>

definition loop_body_rest ::
  "('a, 'b) helpers \<Rightarrow> 'b model \<Rightarrow> 'a ndarray \<Rightarrow> int \<Rightarrow> int \<Rightarrow> 'b ndarray list \<Rightarrow> nat list
     \<Rightarrow> nat \<Rightarrow> 'b ndarray list option \<Rightarrow> 'b ndarray list run" where
  "loop_body_rest hs m input_image_array batch_size padding_size patches p_shape i collect =
     then_run
       (call (Ev_predict i (length (py_slice patches i batch_size)))
          (predict m (py_slice patches i batch_size)))
       (\<lambda>batch.
     then_run
       (if i = 0 then ret batch
        else (case collect of
                None \<Rightarrow> raise UnboundLocalError
              | Some c \<Rightarrow> lift (np_append c batch)))
       (\<lambda>collect'.
     then_run (stitch_collect hs m input_image_array padding_size p_shape collect')
       (\<lambda>sr_img.
     then_run (call Ev_process_output (process_output hs sr_img))
       (\<lambda>_. ret collect'))))"

text \<open>One iteration of the loop of lines 167--185: line 168, then lines 169--185.\<close>

definition loop_body ::
  "('a, 'b) helpers \<Rightarrow> 'b model \<Rightarrow> 'a ndarray \<Rightarrow> int \<Rightarrow> int \<Rightarrow> 'b ndarray list \<Rightarrow> nat list
     \<Rightarrow> nat \<Rightarrow> 'b ndarray list option \<Rightarrow> 'b ndarray list run" where
  "loop_body hs m input_image_array batch_size padding_size patches p_shape i collect =
     then_run self_logger_info
       (\<lambda>_. loop_body_rest hs m input_image_array batch_size padding_size patches p_shape i
              collect)"

fun batch_loop ::
  "('a, 'b) helpers \<Rightarrow> 'b model \<Rightarrow> 'a ndarray \<Rightarrow> int \<Rightarrow> int \<Rightarrow> 'b ndarray list \<Rightarrow> nat list
     \<Rightarrow> nat list \<Rightarrow> 'b ndarray list option \<Rightarrow> 'b ndarray list option run" where
  "batch_loop hs m input_image_array batch_size padding_size patches p_shape [] collect =
     ret collect"
| "batch_loop hs m input_image_array batch_size padding_size patches p_shape (i # rest) collect =
     (case loop_body hs m input_image_array batch_size padding_size patches p_shape i collect of
        (t, Inl e) \<Rightarrow> (t, Inl e)
      | (t, Inr c) \<Rightarrow>
          (case batch_loop hs m input_image_array batch_size padding_size patches p_shape rest (Some c) of
             (t', r) \<Rightarrow> (t @ t', r)))"

text \<open>The branch of lines 160--195, entered when \<^verbatim>\<open>by_patch_of_size\<close> is truthy.\<close>

definition predict_by_patch ::
  "('a, 'b) helpers \<Rightarrow> 'b model \<Rightarrow> 'a ndarray \<Rightarrow> int \<Rightarrow> int \<Rightarrow> int \<Rightarrow> 'b ndarray run" where
  "predict_by_patch hs m input_image_array by_patch_of_size batch_size padding_size =
     then_run self_logger_info
       (\<lambda>_.
     then_run (call (Ev_process_array False) (process_array hs input_image_array))
       (\<lambda>lr_img.
     then_run
       (call (Ev_split by_patch_of_size padding_size)
          (split_image_into_overlapping_patches hs lr_img by_patch_of_size padding_size))
       (\<lambda>(patches, p_shape).
     then_run self_logger_info
       (\<lambda>_.
     then_run (lift (py_range0 (length patches) batch_size))
       (\<lambda>indices.
     then_run
       (batch_loop hs m input_image_array batch_size padding_size patches p_shape indices None)
       (\<lambda>collect.
          (case collect of
             None \<Rightarrow> raise UnboundLocalError
           | Some c \<Rightarrow> stitch_collect hs m input_image_array padding_size p_shape c)))))))"

text \<open>The branch of lines 198--199.\<close>

definition predict_whole ::
  "('a, 'b) helpers \<Rightarrow> 'b model \<Rightarrow> 'a ndarray \<Rightarrow> 'b ndarray run" where
  "predict_whole hs m input_image_array =
     then_run (call (Ev_process_array True) (process_array_expand hs input_image_array))
       (\<lambda>lr_img.
     then_run (call (Ev_predict 0 (length lr_img)) (predict m lr_img))
       (\<lambda>out. lift (index0 out)))"

text \<open>
  \<^verbatim>\<open>if by_patch_of_size:\<close> is Python truthiness: \<^verbatim>\<open>None\<close> and \<open>0\<close> are false, every
  other integer is true.
\<close>

definition truthy :: "int option \<Rightarrow> bool" where
  "truthy v = (case v of None \<Rightarrow> False | Some k \<Rightarrow> k \<noteq> 0)"

definition Predictor_predict ::
  "('a, 'b) helpers \<Rightarrow> 'b model \<Rightarrow> 'a ndarray \<Rightarrow> int option \<Rightarrow> int \<Rightarrow> int \<Rightarrow> 'a ndarray run" where
  "Predictor_predict hs m input_image_array by_patch_of_size batch_size padding_size =
     then_run
       (if truthy by_patch_of_size
        then predict_by_patch hs m input_image_array (the by_patch_of_size) batch_size padding_size
        else predict_whole hs m input_image_array)
       (\<lambda>sr_img. call Ev_process_output (process_output hs sr_img))"

section \<open>\<^verbatim>\<open>Predictor._forward_pass\<close>\<close>

text \<open>
  The argument is the array \<^verbatim>\<open>imageio.imread\<close> decoded. \<^verbatim>\<open>_forward_pass\<close> is a
  method: its \<^verbatim>\<open>self\<close> is bound, and its \<^verbatim>\<open>self.logger.error\<close> of line 140 only
  writes to the log. A function that falls off its end returns \<^verbatim>\<open>None\<close>. The calls
  of \<^verbatim>\<open>_predict\<close> on lines 135 and 137 leave \<^verbatim>\<open>batch_size\<close> and \<^verbatim>\<open>padding_size\<close>
  at their defaults 10 and 2; their argument \<^verbatim>\<open>model\<close> is read as the model in use.
  For an array of \<^verbatim>\<open>imread\<close> neither call is reached: line 134 raises before.
\<close>

definition Predictor_forward_pass ::
  "('a, 'b) helpers \<Rightarrow> 'b model \<Rightarrow> 'a ndarray \<Rightarrow> 'a ndarray option run" where
  "Predictor_forward_pass hs m lr_img =
     (if length (shape lr_img) \<le> 2 then raise IndexError
      else if shape lr_img ! 2 = 3 then
        then_run (lift (subscript (ndarray_size lr_img) 1))
          (\<lambda>s. then_run
                  (if s > 1024
                   then Predictor_predict hs m lr_img (Some 256) 10 2
                   else Predictor_predict hs m lr_img None 10 2)
                  (\<lambda>sr_img. ret (Some sr_img)))
      else ret None)"

section \<open>The variant that stitches once\<close>






section \<open>Observations on traces\<close>

fun is_predict :: "event \<Rightarrow> bool" where
  "is_predict (Ev_predict i n) = True"
| "is_predict ev = False"

fun is_stitch :: "event \<Rightarrow> bool" where
  "is_stitch (Ev_stitch n) = True"
| "is_stitch ev = False"

fun is_split :: "event \<Rightarrow> bool" where
  "is_split (Ev_split p d) = True"
| "is_split ev = False"

section \<open>The helpers of \<^verbatim>\<open>ISR.utils.image_processing\<close>, from the specification\<close>

text \<open>
  Three-axis arrays are read and built by index: \<open>index3 a i j k\<close> is \<^verbatim>\<open>a[i, j, k]\<close>
  and \<open>build3 h w c f\<close> is the array of shape \<open>(h, w, c)\<close> holding \<open>f i j k\<close>.
\<close>

definition index3 :: "'x ndarray \<Rightarrow> nat \<Rightarrow> nat \<Rightarrow> nat \<Rightarrow> 'x" where
  "index3 a i j k = elems a ! ((i * (shape a ! 1) + j) * (shape a ! 2) + k)"

definition build3 :: "nat \<Rightarrow> nat \<Rightarrow> nat \<Rightarrow> (nat \<Rightarrow> nat \<Rightarrow> nat \<Rightarrow> 'x) \<Rightarrow> 'x ndarray" where
  "build3 h w c f =
     NDArray [h, w, c]
       (concat (map (\<lambda>i. concat (map (\<lambda>j. map (f i j) [0..<c]) [0..<w])) [0..<h]))"

text \<open>
  Modelled from the spec: \<^verbatim>\<open>process_array\<close> (Array Codec, \<^verbatim>\<open>to_model_domain\<close>) is
  missing from the source. It maps every sample into the model's domain, does not
  resize, and fails with \<open>InvalidChannelCount\<close> if the input's channel axis is not of
  length 3. The map on samples is a parameter: the specification fixes no numbers.
\<close>

definition spec_process_array :: "('a \<Rightarrow> 'b) \<Rightarrow> 'a ndarray \<Rightarrow> error + 'b ndarray" where
  "spec_process_array to_model a =
     (if length (shape a) = 3 \<and> shape a ! 2 = 3
      then Inr (NDArray (shape a) (map to_model (elems a)))
      else Inl InvalidChannelCount)"

text \<open>
  Modelled from the spec: \<^verbatim>\<open>process_output\<close> (Array Codec, \<^verbatim>\<open>from_model_domain\<close>) is
  missing from the source. It maps every sample back to the display type (clipping and
  casting are the parameter's business) and keeps the shape.
\<close>

definition spec_process_output :: "('b \<Rightarrow> 'a) \<Rightarrow> 'b ndarray \<Rightarrow> error + 'a ndarray" where
  "spec_process_output from_model a = Inr (NDArray (shape a) (map from_model (elems a)))"

text \<open>
  Modelled from the spec: \<^verbatim>\<open>split_image_into_overlapping_patches\<close> (Patch Splitter) is
  missing from the source. Step 1 pads each axis, bottom and right, to the smallest
  multiple of the patch size (zero fill); step 2 adds a zero border of
  \<open>padding_size\<close> on all four sides; step 3 walks the grid in row-major order with
  stride \<open>patch_size\<close> and extracts squares of side \<open>patch_size + 2 * padding_size\<close>. It
  returns the patches and the padded shape of step 1. A patch size that is zero or
  negative is \<open>InvalidPatchSize\<close>. The specification says nothing of a negative padding
  size; no border of negative width exists, and the model raises \<open>ValueError\<close>.
\<close>

definition bordered ::
  "'b::zero ndarray \<Rightarrow> nat \<Rightarrow> nat \<Rightarrow> nat \<Rightarrow> nat \<Rightarrow> 'b" where
  "bordered a d x y k =
     (if d \<le> x \<and> x < d + shape a ! 0 \<and> d \<le> y \<and> y < d + shape a ! 1
      then index3 a (x - d) (y - d) k
      else 0)"

definition extract_patch ::
  "'b::zero ndarray \<Rightarrow> nat \<Rightarrow> nat \<Rightarrow> nat \<Rightarrow> nat \<Rightarrow> 'b ndarray" where
  "extract_patch a p d r c =
     build3 (p + 2 * d) (p + 2 * d) 3 (\<lambda>i j k. bordered a d (r * p + i) (c * p + j) k)"

definition round_up :: "nat \<Rightarrow> nat \<Rightarrow> nat" where
  "round_up n p = ((n + p - 1) div p) * p"

definition spec_split ::
  "'b::zero ndarray \<Rightarrow> int \<Rightarrow> int \<Rightarrow> error + ('b ndarray list \<times> nat list)" where
  "spec_split a patch_size padding_size =
     (if patch_size \<le> 0 then Inl InvalidPatchSize
      else if \<not> (length (shape a) = 3 \<and> shape a ! 2 = 3) then Inl InvalidChannelCount
      else if padding_size < 0 then Inl ValueError
      else
        (let p = nat patch_size; d = nat padding_size;
             ph = round_up (shape a ! 0) p; pw = round_up (shape a ! 1) p
         in Inr (concat (map (\<lambda>r. map (\<lambda>c. extract_patch a p d r c) [0..<pw div p])
                           [0..<ph div p]),
                 [ph, pw, 3])))"

text \<open>
  Modelled from the spec: \<^verbatim>\<open>stich_together\<close> (Stitcher) is missing from the source.
  Every prediction is a square of side \<open>s\<close> with 3 channels; cropped by the (scaled)
  padding on all sides it leaves a tile of side \<open>s - 2 * padding\<close>, placed at its
  row-major grid position in a canvas of the padded shape; the canvas is cropped from the
  top left to exactly the target shape. Predictions that are not equal squares with 3
  channels, or whose tiles do not fit the canvas, are \<open>ShapeMismatchError\<close>, raised
  before placement. Grid cells for which no prediction was handed over stay zero, as
  does everything outside the canvas. Shapes that are not triples and a negative padding
  are outside what the specification describes; the model raises \<open>ValueError\<close>.
\<close>

definition canvas ::
  "'b::zero ndarray list \<Rightarrow> nat \<Rightarrow> nat \<Rightarrow> nat \<Rightarrow> nat \<Rightarrow> nat \<Rightarrow> nat \<Rightarrow> nat \<Rightarrow> 'b" where
  "canvas predictions ch cw t d x y k =
     (let idx = (x div t) * (cw div t) + y div t
      in if x < ch \<and> y < cw \<and> k < 3 \<and> idx < length predictions
         then index3 (predictions ! idx) (d + x mod t) (d + y mod t) k
         else 0)"

definition spec_stitch ::
  "'b::zero ndarray list \<Rightarrow> nat list \<Rightarrow> nat list \<Rightarrow> int \<Rightarrow> error + 'b ndarray" where
  "spec_stitch predictions padded_image_shape target_shape padding_size =
     (if length padded_image_shape \<noteq> 3 \<or> length target_shape \<noteq> 3 \<or> padding_size < 0
      then Inl ValueError
      else
        (let d = nat padding_size;
             ch = padded_image_shape ! 0; cw = padded_image_shape ! 1;
             s = (case predictions of
                    [] \<Rightarrow> 2 * d + 1
                  | q # _ \<Rightarrow> (case shape q of [] \<Rightarrow> 0 | n # _ \<Rightarrow> n));
             t = s - 2 * d
         in if \<not> list_all (\<lambda>q. shape q = [s, s, 3]) predictions
               \<or> s \<le> 2 * d \<or> \<not> t dvd ch \<or> \<not> t dvd cw
            then Inl ShapeMismatchError
            else Inr (build3 (target_shape ! 0) (target_shape ! 1) (target_shape ! 2)
                        (canvas predictions ch cw t d))))"

definition spec_helpers :: "('a \<Rightarrow> 'b) \<Rightarrow> ('b \<Rightarrow> 'a) \<Rightarrow> ('a, 'b::zero) helpers" where
  "spec_helpers to_model from_model =
     \<lparr> process_array = spec_process_array to_model,
       process_output = spec_process_output from_model,
       split_image_into_overlapping_patches = spec_split,
       stich_together = spec_stitch \<rparr>"

section \<open>The model's contract\<close>

text \<open>
  Modelled from the spec: the model is an external collaborator, missing from the
  source. Its contract: \<^verbatim>\<open>predict\<close> returns for every batch of three-axis arrays,
  order preserving and with the same length in and out; every output has the spatial dimensions of its input
  times \<open>scale\<close>; \<open>scale\<close> is a positive integer.
\<close>

definition output_shape :: "nat \<Rightarrow> nat list \<Rightarrow> nat list" where
  "output_shape s shp = map (\<lambda>d. d * s) (take 2 shp) @ drop 2 shp"

definition model_contract :: "'b model \<Rightarrow> bool" where
  "model_contract m \<longleftrightarrow>
     1 \<le> scale m \<and>
     (\<forall>batch. list_all (\<lambda>x. length (shape x) = 3) batch \<longrightarrow>
        (\<exists>out. predict m batch = Inr out \<and>
           map shape out = map (\<lambda>x. output_shape (scale m) (shape x)) batch))"

section \<open>Concrete collaborators and inputs\<close>

text \<open>
  A codec between display samples (naturals, valid from 0 to 255) and integers, a model
  that enlarges every patch by pixel repetition, and small images. \<open>patches_2x2\<close> are
  the four patches the splitter of the specification cuts from the converted
  \<open>image_2x2\<close> with patch size 1 and padding 0.
\<close>

definition to_int_sample :: "nat \<Rightarrow> int" where
  "to_int_sample x = int x"

definition clip_sample :: "int \<Rightarrow> nat" where
  "clip_sample y = nat (max 0 (min 255 y))"

definition test_helpers :: "(nat, int) helpers" where
  "test_helpers = spec_helpers to_int_sample clip_sample"

definition upsample :: "nat \<Rightarrow> 'b ndarray \<Rightarrow> 'b ndarray" where
  "upsample s a =
     build3 (shape a ! 0 * s) (shape a ! 1 * s) (shape a ! 2)
       (\<lambda>i j k. index3 a (i div s) (j div s) k)"

definition upscale_model :: "nat \<Rightarrow> 'b model" where
  "upscale_model s = \<lparr> predict = (\<lambda>batch. Inr (map (upsample s) batch)), scale = s \<rparr>"

definition image_2x2 :: "nat ndarray" where
  "image_2x2 = NDArray [2, 2, 3] [10, 20, 30, 40, 50, 60, 70, 80, 90, 100, 110, 120]"

definition patches_2x2 :: "int ndarray list" where
  "patches_2x2 =
     [NDArray [1, 1, 3] [10, 20, 30], NDArray [1, 1, 3] [40, 50, 60],
      NDArray [1, 1, 3] [70, 80, 90], NDArray [1, 1, 3] [100, 110, 120]]"

definition image_3x3_4ch :: "nat ndarray" where
  "image_3x3_4ch = NDArray [3, 3, 4] (replicate 36 7)"

definition image_tall :: "nat ndarray" where
  "image_tall = NDArray [1025, 1, 3] (replicate 3075 0)"

section \<open>Facts about runs\<close>

lemma snd_then_run:
  "snd (then_run m f) = (case snd m of Inl e \<Rightarrow> Inl e | Inr x \<Rightarrow> snd (f x))"
  by (cases m) (simp add: then_run_def split: sum.splits prod.splits)

lemma fst_then_run:
  "fst (then_run m f) = (case snd m of Inl e \<Rightarrow> fst m | Inr x \<Rightarrow> fst m @ fst (f x))"
  by (cases m) (simp add: then_run_def split: sum.splits prod.splits)

lemma self_logger_info_then: "then_run self_logger_info f = ([], Inl NameError)"
  by (simp add: self_logger_info_def raise_def then_run_def)

subsection \<open>The tiled branch stops at its first statement\<close>

lemma predict_by_patch_raises:
  "predict_by_patch hs m a p b d = ([], Inl NameError)"
  by (simp add: predict_by_patch_def self_logger_info_then)


lemma tiled_run_raises:
  "truthy p \<Longrightarrow> Predictor_predict hs m a p b d = ([], Inl NameError)"
  by (simp add: Predictor_predict_def predict_by_patch_raises then_run_def)

lemma loop_body_raises: "loop_body hs m a b d ps sh i c = ([], Inl NameError)"
  by (simp add: loop_body_def self_logger_info_then)

lemma batch_loop_raises:
  "batch_loop hs m a b d ps sh (i # rest) c = ([], Inl NameError)"
  by (simp add: loop_body_raises)

subsection \<open>Lines 169--185 on their own\<close>

lemma np_append_Inr: "np_append c batch = Inr c' \<Longrightarrow> c' = c @ batch"
  by (simp add: np_append_def split: if_splits)

lemma loop_body_rest_trace:
  "snd (loop_body_rest hs m a b d ps sh i c) = Inr c' \<Longrightarrow>
   fst (loop_body_rest hs m a b d ps sh i c) =
     [Ev_predict i (length (py_slice ps i b)), Ev_stitch (length c'), Ev_process_output]"
  by (auto simp: loop_body_rest_def snd_then_run fst_then_run call_def ret_def lift_def raise_def
      stitch_collect_def split: sum.splits if_splits option.splits)

lemma loop_body_rest_appends:
  assumes "snd (loop_body_rest hs m a b d ps sh i c) = Inr c'"
  shows "\<exists>batch. predict m (py_slice ps i b) = Inr batch \<and>
           (if i = 0 then c' = batch else \<exists>c0. c = Some c0 \<and> c' = c0 @ batch)"
  using assms
  by (auto simp: loop_body_rest_def snd_then_run call_def ret_def lift_def raise_def
      dest: np_append_Inr split: sum.splits if_splits option.splits)

lemma loop_body_rest_predict_fails:
  "predict m (py_slice ps i b) = Inl e \<Longrightarrow>
   loop_body_rest hs m a b d ps sh i c = ([Ev_predict i (length (py_slice ps i b))], Inl e)"
  by (simp add: loop_body_rest_def then_run_def call_def)

subsection \<open>The size test of \<^verbatim>\<open>_forward_pass\<close>\<close>

lemma forward_pass_three_channels_raises:
  "2 < length (shape a) \<Longrightarrow> shape a ! 2 = 3 \<Longrightarrow>
   Predictor_forward_pass hs m a = ([], Inl TypeError)"
  by (simp add: Predictor_forward_pass_def ndarray_size_def then_run_def lift_def)

subsection \<open>The shape returned by the single pass\<close>

lemma shape_build3: "shape (build3 h w c f) = [h, w, c]"
  by (simp add: build3_def)

lemma shape_upsample:
  "length (shape x) = 3 \<Longrightarrow> shape (upsample s x) = output_shape s (shape x)"
  by (auto simp: upsample_def shape_build3 output_shape_def numeral_3_eq_3 length_Suc_conv)

lemma upscale_contract: "0 < s \<Longrightarrow> model_contract (upscale_model s)"
  by (simp add: model_contract_def upscale_model_def shape_upsample list_all_iff)

lemma predict_whole_ok:
  assumes con: "model_contract m" and a: "shape a = [H, W, 3]"
  shows "\<exists>r. snd (predict_whole (spec_helpers tm fm) m a) = Inr r \<and>
           shape r = [H * scale m, W * scale m, 3]"
proof -
  let ?hs = "spec_helpers tm fm"
  let ?lr = "NDArray [H, W, 3] (map tm (elems a))"
  have pa: "process_array_expand ?hs a = Inr [?lr]"
    using a by (simp add: process_array_expand_def spec_helpers_def spec_process_array_def)
  have "list_all (\<lambda>x. length (shape x) = 3) [?lr]" by simp
  with con obtain out where
    out: "predict m [?lr] = Inr out" and
    shapes: "map shape out = map (\<lambda>x. output_shape (scale m) (shape x)) [?lr]"
    unfolding model_contract_def by blast
  from shapes obtain y where y: "out = [y]" and "shape y = output_shape (scale m) [H, W, 3]"
    by (cases out) auto
  then have "shape y = [H * scale m, W * scale m, 3]"
    by (simp add: output_shape_def)
  moreover have "snd (predict_whole ?hs m a) = Inr y"
    using pa out y by (simp add: predict_whole_def snd_then_run call_def lift_def index0_def)
  ultimately show ?thesis by blast
qed

lemma single_pass_returns_scaled_shape:
  assumes "model_contract m" and "shape a = [H, W, 3]" and "\<not> truthy p"
  shows "\<exists>r. snd (Predictor_predict (spec_helpers tm fm) m a p b d) = Inr r \<and>
           shape r = [scale m * H, scale m * W, 3]"
proof -
  from predict_whole_ok [OF assms(1,2)] obtain y where
    y: "snd (predict_whole (spec_helpers tm fm) m a) = Inr y" and
    shp: "shape y = [H * scale m, W * scale m, 3]"
    by blast
  have "snd (Predictor_predict (spec_helpers tm fm) m a p b d) =
      Inr (NDArray (shape y) (map fm (elems y)))"
    using y assms(3)
    by (simp add: Predictor_predict_def snd_then_run call_def spec_helpers_def
        spec_process_output_def)
  with shp show ?thesis by (simp add: mult.commute)
qed

section \<open>The claims\<close>

text \<open>
  C1. The claim: for every image of shape \<open>(H, W, 3)\<close> and every patch size, batch size
  and padding size, \<^verbatim>\<open>_predict\<close> returns an array of shape \<open>(scale * H, scale * W, 3)\<close>.
  On the 2-by-2 image with patch size 1 the code returns nothing: the tiled branch
  raises \<^verbatim>\<open>NameError\<close> at line 160, before the codec is called. The same holds for
  every patch size other than 0 (\<open>tiled_run_raises\<close>); with the patch size unset or 0
  the shape is as claimed (\<open>single_pass_returns_scaled_shape\<close>).
\<close>

theorem tiled_predict_raises_NameError:
  "Predictor_predict test_helpers (upscale_model 2) image_2x2 (Some 1) 10 2 =
     ([], Inl NameError)"
  by code_simp

text \<open>
  C2. The claim: an input whose channel axis is not of length 3 raises
  \<open>InvalidChannelCount\<close> before any processing. The code raises nothing: on the
  3-by-3 image with 4 channels \<^verbatim>\<open>_forward_pass\<close> returns \<^verbatim>\<open>None\<close>.
\<close>

theorem forward_pass_four_channels_no_error:
  "Predictor_forward_pass test_helpers (upscale_model 2) image_3x3_4ch = ([], Inr None)"
  by code_simp

text \<open>
  C2, as the code has it: for every array with a channel axis whose length is not 3,
  \<^verbatim>\<open>_forward_pass\<close> returns \<^verbatim>\<open>None\<close> without raising, and no collaborator is
  called: no codec call, no patch, no model call.
\<close>

theorem forward_pass_wrong_channels_returns_None:
  "2 < length (shape a) \<Longrightarrow> shape a ! 2 \<noteq> 3 \<Longrightarrow> Predictor_forward_pass hs m a = ([], Inr None)"
  by (simp add: Predictor_forward_pass_def ret_def)

theorem forward_pass_wrong_channels_returns_None_witness:
  "2 < length (shape (NDArray [1, 1, 5] [1, 2, 3, 4, 5 :: nat])) \<and>
   shape (NDArray [1, 1, 5] [1, 2, 3, 4, 5 :: nat]) ! 2 \<noteq> 3 \<and>
   Predictor_forward_pass test_helpers (upscale_model 2) (NDArray [1, 1, 5] [1, 2, 3, 4, 5])
     = ([], Inr None)"
  using forward_pass_wrong_channels_returns_None
    [of "NDArray [1, 1, 5] [1, 2, 3, 4, 5 :: nat]" test_helpers "upscale_model 2"]
  by simp

text \<open>
  C3. The claim: the tiled path is taken exactly when the longer spatial axis exceeds
  1024. The test of line 134 subscripts \<^verbatim>\<open>lr_img.size\<close>, an integer: on the image of
  height 1025 and width 1, whose longer axis exceeds 1024, \<^verbatim>\<open>_forward_pass\<close> raises
  \<^verbatim>\<open>TypeError\<close> and takes neither path.
\<close>

theorem forward_pass_size_subscript_raises:
  "Predictor_forward_pass test_helpers (upscale_model 2) image_tall = ([], Inl TypeError)"
  by code_simp

text \<open>
  C4. The claim: for every batch size from 1 to the number of patches, the concatenated
  prediction at index \<open>i\<close> is the model's output for the patch at index \<open>i\<close>. On four
  patches with batch size 2 the loop of lines 167--185 produces no prediction at all:
  its first iteration raises \<^verbatim>\<open>NameError\<close> at line 168, before the model is called.
  Lines 169--173 taken alone do append each batch's output behind what was collected
  (\<open>loop_body_rest_appends\<close>).
\<close>

theorem batch_loop_raises_before_any_prediction:
  "batch_loop test_helpers (upscale_model 2) image_2x2 2 0 patches_2x2 [2, 2, 3] [0, 2] None =
     ([], Inl NameError)"
  by code_simp

text \<open>
  C5. The claim: in a tiled run the stitch happens exactly once, after all predictions
  are there. On the 2-by-2 image with patch size 1 and batch size 2 (four patches, two
  batches) the run as written stitches not once but never: it stops at line 160. And
  the loop's body, lines 169--185, stitches in every iteration: in the first it stitches
  the two predictions of the first batch only.
\<close>

theorem tiled_run_never_stitches_once:
  "Predictor_predict test_helpers (upscale_model 2) image_2x2 (Some 1) 2 0 =
     ([], Inl NameError) \<and>
   fst (loop_body_rest test_helpers (upscale_model 2) image_2x2 2 0 patches_2x2 [2, 2, 3] 0 None) =
     [Ev_predict 0 2, Ev_stitch 2, Ev_process_output]"
  by code_simp

text \<open>
  C6. The claim: a patch size of zero with tiling requested raises \<open>InvalidPatchSize\<close>.
  The code reads \<^verbatim>\<open>by_patch_of_size\<close> for its truth value, and 0 is false: the run
  with patch size 0 is the single pass, and it returns the enlarged image.
\<close>

theorem predict_patch_size_zero_runs:
  "Predictor_predict test_helpers (upscale_model 2) image_2x2 (Some 0) 10 2 =
     ([Ev_process_array True, Ev_predict 0 1, Ev_process_output], Inr (upsample 2 image_2x2))"
  by code_simp

text \<open>
  C6, as the code has it: a patch size of 0 does not request tiling; the run is the run
  with the patch size unset, whatever the other arguments; \<^verbatim>\<open>_predict\<close> raises no
  \<open>InvalidPatchSize\<close> for it.
\<close>

theorem patch_size_zero_is_single_pass:
  "Predictor_predict hs m a (Some 0) b d = Predictor_predict hs m a None b d"
  by (simp add: Predictor_predict_def truthy_def)

text \<open>
  C8. With the patch size unset, the run never calls the Patch Splitter or the Stitcher
  and calls the model at most once. A run that returns made exactly three calls, in this
  order: the codec forward (expanding to a batch), the model on a batch of one holding
  the whole converted image, the codec in reverse on the first entry of the model's
  output.
\<close>

theorem single_pass_calls:
  "\<not> list_ex is_split (fst (Predictor_predict hs m a None b d)) \<and>
   \<not> list_ex is_stitch (fst (Predictor_predict hs m a None b d)) \<and>
   length (filter is_predict (fst (Predictor_predict hs m a None b d))) \<le> 1 \<and>
   (snd (Predictor_predict hs m a None b d) = Inr r \<longrightarrow>
      fst (Predictor_predict hs m a None b d) =
        [Ev_process_array True, Ev_predict 0 1, Ev_process_output] \<and>
      (\<exists>x out y. process_array hs a = Inr x \<and> predict m [x] = Inr out \<and>
          index0 out = Inr y \<and> process_output hs y = Inr r))"
  by (auto simp: Predictor_predict_def truthy_def predict_whole_def process_array_expand_def
      then_run_def call_def lift_def split: sum.splits prod.splits)

theorem single_pass_calls_witness:
  "snd (Predictor_predict test_helpers (upscale_model 2) image_2x2 None 10 2) =
     Inr (upsample 2 image_2x2) \<and>
   fst (Predictor_predict test_helpers (upscale_model 2) image_2x2 None 10 2) =
     [Ev_process_array True, Ev_predict 0 1, Ev_process_output]"
proof -
  have h: "snd (Predictor_predict test_helpers (upscale_model 2) image_2x2 None 10 2) =
      Inr (upsample 2 image_2x2)"
    by code_simp
  from single_pass_calls [of test_helpers "upscale_model 2" image_2x2 10 2 "upsample 2 image_2x2"] h
  show ?thesis by blast
qed



text \<open>
  C10. With the patch size unset, the run does not depend on the batch size or the
  padding size: two runs on the same image and model that differ only in these two
  arguments make the same calls and return the same array, or raise the same exception.
\<close>

theorem single_pass_ignores_batch_and_padding:
  "Predictor_predict hs m a None b1 d1 = Predictor_predict hs m a None b2 d2"
  by (simp add: Predictor_predict_def truthy_def)

end
